theory Spec2Isabelle
  imports Main "HOL-Library.Sublist"
begin

section \<open>Data model\<close>

text \<open>
  The component \<open>DataReviewTable\<close> declares two interfaces. \<open>ValidationError\<close> carries a
  message and a severity drawn from the two literals \<open>"critical"\<close> and \<open>"warning"\<close>.
  \<open>Record\<close> has four required properties (\<open>id\<close>, \<open>name\<close>, \<open>email\<close>, \<open>status\<close>), four
  optional strings and an optional \<open>errors\<close> object with one optional finding for each of the
  four watched fields. An optional property is an \<open>option\<close>: \<open>None\<close> is the property being
  absent from the object (the records arrive as JSON, which has no \<open>undefined\<close>).
\<close>

datatype severity_level = critical | warning

record ValidationError =
  message :: string
  severity :: severity_level

record Errors =
  err_email :: "ValidationError option"
  err_phone :: "ValidationError option"
  err_zipcode :: "ValidationError option"
  err_street :: "ValidationError option"

record Record =
  rec_id :: int
  name :: string
  email :: string
  street :: "string option"
  city :: "string option"
  zipcode :: "string option"
  phone :: "string option"
  status :: string
  errors :: "Errors option"

text \<open>The four watched fields, each shown in a table cell that reacts to the pointer.\<close>

datatype field = Email | Street | Zipcode | Phone

fun finding :: "field \<Rightarrow> Record \<Rightarrow> ValidationError option" where
  "finding Email r = (case errors r of None \<Rightarrow> None | Some e \<Rightarrow> err_email e)"
| "finding Street r = (case errors r of None \<Rightarrow> None | Some e \<Rightarrow> err_street e)"
| "finding Zipcode r = (case errors r of None \<Rightarrow> None | Some e \<Rightarrow> err_zipcode e)"
| "finding Phone r = (case errors r of None \<Rightarrow> None | Some e \<Rightarrow> err_phone e)"

section \<open>JavaScript values and string primitives\<close>

text \<open>
  The values that occur as properties of a record or of a flattened row: a number (the
  \<open>id\<close>, an integer), a string, or a plain object (the \<open>errors\<close> property).
\<close>

datatype jsvalue = JNumber int | JString string | JObject

fun digits :: "nat \<Rightarrow> string" where
  "digits n = (if n < 10 then [''0123456789'' ! n]
               else digits (n div 10) @ [''0123456789'' ! (n mod 10)])"

text \<open>
  \<open>String(value)\<close>: an integer prints in decimal (JavaScript does so below \<open>10^21\<close>), a
  string is itself, and a plain object prints as the fixed text \<open>[object Object]\<close>.
\<close>

fun String_of :: "jsvalue \<Rightarrow> string" where
  "String_of (JNumber i) = (if i < 0 then CHR ''-'' # digits (nat (- i)) else digits (nat i))"
| "String_of (JString s) = s"
| "String_of JObject = ''[object Object]''"

text \<open>
  \<open>toLowerCase\<close> on the ASCII letters; every other character is left as it is (text
  outside ASCII is not covered by this model).
\<close>

definition lower_char :: "char \<Rightarrow> char" where
  "lower_char c =
     (case map_of (zip ''ABCDEFGHIJKLMNOPQRSTUVWXYZ'' ''abcdefghijklmnopqrstuvwxyz'') c of
        None \<Rightarrow> c
      | Some l \<Rightarrow> l)"

definition toLowerCase :: "string \<Rightarrow> string" where
  "toLowerCase s = map lower_char s"

text \<open>\<open>s.includes(q)\<close>: \<open>q\<close> occurs in \<open>s\<close> as a contiguous run of characters.\<close>

fun includes_str :: "string \<Rightarrow> string \<Rightarrow> bool" where
  "includes_str [] q = (q = [])"
| "includes_str (c # cs) q = (prefix q (c # cs) \<or> includes_str cs q)"

text \<open>\<open>v || ''\<close> on an optional string: an absent or empty value gives the empty string.\<close>

definition or_empty :: "string option \<Rightarrow> string" where
  "or_empty v = (case v of None \<Rightarrow> '''' | Some s \<Rightarrow> (if s = '''' then '''' else s))"

section \<open>Component state\<close>

text \<open>
  The seven \<open>useState\<close> cells of the component. A pointer position is the pair
  \<open>(pageX, pageY)\<close>.
\<close>

type_synonym position = "int \<times> int"

record State =
  records :: "Record list"
  loading :: bool
  error :: "string option"
  modalData :: "Record option"
  searchQuery :: string
  hoveredError :: "string option"
  tooltipPosition :: "position option"

definition initial_state :: State where
  "initial_state =
     \<lparr>records = [], loading = True, error = None, modalData = None, searchQuery = '''',
      hoveredError = None, tooltipPosition = None\<rparr>"

section \<open>Filter\<close>

text \<open>
  \<open>Object.values(record)\<close>: the values of the properties the record owns. An absent
  optional property contributes no value; a present \<open>errors\<close> property contributes an object.
  The order is immaterial to \<open>some\<close>.
\<close>

definition present :: "string option \<Rightarrow> jsvalue list" where
  "present v = (case v of None \<Rightarrow> [] | Some s \<Rightarrow> [JString s])"

definition Object_values :: "Record \<Rightarrow> jsvalue list" where
  "Object_values r =
     [JNumber (rec_id r), JString (name r), JString (email r)]
     @ present (street r) @ present (city r) @ present (zipcode r) @ present (phone r)
     @ [JString (status r)]
     @ (case errors r of None \<Rightarrow> [] | Some e \<Rightarrow> [JObject])"

definition matches :: "string \<Rightarrow> Record \<Rightarrow> bool" where
  "matches q r =
     list_ex (\<lambda>v. includes_str (toLowerCase (String_of v)) (toLowerCase q)) (Object_values r)"

definition filteredRecords :: "State \<Rightarrow> Record list" where
  "filteredRecords st = filter (matches (searchQuery st)) (records st)"




section \<open>Record store\<close>

text \<open>
  \<open>fetchData\<close> runs once, from the effect with the empty dependency list: it issues one
  request and, when the request settles, either stores the records or stores the fixed
  message and logs the failure. A failure is whatever the \<open>catch\<close> clause receives: an HTTP
  error status, a network failure, or an exception raised while reading the payload.
  The world around the component state holds what the handlers touch beyond it: the console,
  the number of requests issued, the children of the document body, the object URLs created
  and the downloads started.
\<close>

datatype fetch_error = HttpError nat | NetworkError string | PayloadError string

datatype fetch_outcome = Resolved "Record list" | Rejected fetch_error

datatype dom_node = AppRoot | Anchor string string

record download =
  filename :: string
  mime :: string
  content :: string

record World =
  state :: State
  console :: "fetch_error list"
  requests :: nat
  body :: "dom_node list"
  object_urls :: nat
  downloads :: "download list"

definition fetch_error_message :: string where
  "fetch_error_message = ''Error fetching data. Please try again later.''"

definition fetchData_start :: "World \<Rightarrow> World" where
  "fetchData_start w = w\<lparr>requests := Suc (requests w)\<rparr>"

fun fetchData_settle :: "fetch_outcome \<Rightarrow> World \<Rightarrow> World" where
  "fetchData_settle (Resolved rs) w =
     w\<lparr>state := (state w)\<lparr>records := rs, error := None, loading := False\<rparr>\<rparr>"
| "fetchData_settle (Rejected err) w =
     w\<lparr>state := (state w)\<lparr>error := Some fetch_error_message, loading := False\<rparr>,
       console := console w @ [err]\<rparr>"

text \<open>The world after the first render and its effect: loading, one request in flight.\<close>

definition mounted :: World where
  "mounted =
     fetchData_start
       \<lparr>state = initial_state, console = [], requests = 0, body = [AppRoot],
        object_urls = 0, downloads = []\<rparr>"

section \<open>Export\<close>

text \<open>
  \<open>flattenRecord\<close> builds an object literal of sixteen properties; a row keeps them as an
  association list in the order they are written.
\<close>

type_synonym row = "(string \<times> jsvalue) list"

fun severity_text :: "severity_level \<Rightarrow> string" where
  "severity_text critical = ''critical''"
| "severity_text warning = ''warning''"

definition flattenRecord :: "Record \<Rightarrow> row" where
  "flattenRecord r =
     [(''id'', JNumber (rec_id r)),
      (''name'', JString (name r)),
      (''email'', JString (email r)),
      (''street'', JString (or_empty (street r))),
      (''city'', JString (or_empty (city r))),
      (''zipcode'', JString (or_empty (zipcode r))),
      (''phone'', JString (or_empty (phone r))),
      (''status'', JString (status r)),
      (''email_error'', JString (or_empty (map_option message (finding Email r)))),
      (''email_severity'',
         JString (or_empty (map_option (\<lambda>v. severity_text (severity v)) (finding Email r)))),
      (''phone_error'', JString (or_empty (map_option message (finding Phone r)))),
      (''phone_severity'',
         JString (or_empty (map_option (\<lambda>v. severity_text (severity v)) (finding Phone r)))),
      (''zipcode_error'', JString (or_empty (map_option message (finding Zipcode r)))),
      (''zipcode_severity'',
         JString (or_empty (map_option (\<lambda>v. severity_text (severity v)) (finding Zipcode r)))),
      (''street_error'', JString (or_empty (map_option message (finding Street r)))),
      (''street_severity'',
         JString (or_empty (map_option (\<lambda>v. severity_text (severity v)) (finding Street r))))]"

definition flattenedData :: "State \<Rightarrow> row list" where
  "flattenedData st = map flattenRecord (filteredRecords st)"

text \<open>The column list of the specification.\<close>

definition columns :: "string list" where
  "columns =
     [''id'', ''name'', ''email'', ''street'', ''city'', ''zipcode'', ''phone'', ''status'',
      ''email_error'', ''email_severity'', ''phone_error'', ''phone_severity'',
      ''zipcode_error'', ''zipcode_severity'', ''street_error'', ''street_severity'']"

text \<open>
  The serializer \<open>Papa.unparse\<close> belongs to the papaparse package, which the component
  imports and which is not among the repository's sources. The definitions below follow
  that package's functions \<open>safe\<close> and \<open>serialize\<close> on an array of objects under the
  default configuration, the one \<open>exportToCSV\<close> uses (comma delimiter, CRLF line ends,
  double quote as quote and escape character, no column list): the column names are the
  keys of the first object; with an empty array there is no first object, so no header is
  written; an undefined value prints as the empty text; a value is quoted when it
  contains a line end, a quote or the delimiter, or begins or ends with a space.
\<close>

definition newline :: string where
  "newline = [CHR 0x0D, CHR 0x0A]"

fun join :: "string \<Rightarrow> string list \<Rightarrow> string" where
  "join sep [] = []"
| "join sep [x] = x"
| "join sep (x # y # ys) = x @ sep @ join sep (y # ys)"

definition escape_quotes :: "string \<Rightarrow> string" where
  "escape_quotes s = concat (map (\<lambda>c. if c = CHR 0x22 then [CHR 0x22, CHR 0x22] else [c]) s)"

definition needs_quotes :: "string \<Rightarrow> bool" where
  "needs_quotes s =
     (CHR 0x0D \<in> set s \<or> CHR 0x0A \<in> set s \<or> CHR 0x22 \<in> set s \<or> CHR '','' \<in> set s
      \<or> (s \<noteq> [] \<and> (hd s = CHR '' '' \<or> last s = CHR '' '')))"

definition safe :: "jsvalue option \<Rightarrow> string" where
  "safe v =
     (case v of
        None \<Rightarrow> []
      | Some x \<Rightarrow>
          (let e = escape_quotes (String_of x)
           in if needs_quotes e then CHR 0x22 # e @ [CHR 0x22] else e))"

definition serialize :: "string list \<Rightarrow> row list \<Rightarrow> string" where
  "serialize cols data =
     (if cols = [] then []
      else join '','' (map (\<lambda>f. safe (Some (JString f))) cols)
           @ (if data = [] then [] else newline))
     @ join newline
         (map (\<lambda>r. if cols = [] then []
                    else join (if r = [] then [] else '','') (map (\<lambda>f. safe (map_of r f)) cols))
              data)"

definition unparse :: "row list \<Rightarrow> string" where
  "unparse data =
     (case data of
        [] \<Rightarrow> serialize [] data
      | r # rs \<Rightarrow> serialize (map fst r) data)"

text \<open>
  \<open>exportToCSV\<close> serializes the flattened visible rows, wraps the text in a blob, creates an
  anchor that points at the blob's fresh object URL, attaches it to the body, clicks it
  (the browser starts the download under the anchor's file name) and detaches it again.
  It calls no state setter.
\<close>

definition appendChild :: "dom_node \<Rightarrow> dom_node list \<Rightarrow> dom_node list" where
  "appendChild n ns = ns @ [n]"

definition removeChild :: "dom_node \<Rightarrow> dom_node list \<Rightarrow> dom_node list" where
  "removeChild n ns = remove1 n ns"

definition export_document :: "State \<Rightarrow> string" where
  "export_document st = unparse (flattenedData st)"

definition exportToCSV :: "World \<Rightarrow> World" where
  "exportToCSV w =
     (let csv = export_document (state w);
          url = ''blob:'' @ digits (object_urls w);
          link = Anchor url ''data_export_with_errors.csv''
      in w\<lparr>object_urls := Suc (object_urls w),
            body := removeChild link (appendChild link (body w)),
            downloads := downloads w
              @ [\<lparr>filename = ''data_export_with_errors.csv'',
                  mime = ''text/csv;charset=utf-8;'', content = csv\<rparr>]\<rparr>)"

section \<open>Field severity\<close>

text \<open>
  \<open>getFieldColor\<close> receives \<open>record.errors?.field?.severity\<close>, which is undefined when the
  record has no finding for the field, and returns the class list of the cell.
\<close>

definition severity_of :: "ValidationError option \<Rightarrow> severity_level option" where
  "severity_of f = map_option severity f"

definition getFieldColor :: "severity_level option \<Rightarrow> string" where
  "getFieldColor s =
     (if s = Some critical then ''bg-red-500/20 hover:bg-red-500/30 text-red-900''
      else if s = Some warning then ''bg-yellow-500/20 hover:bg-yellow-500/30 text-yellow-900''
      else ''bg-green-500/20 hover:bg-green-500/30 text-green-900'')"

section \<open>Interaction handlers\<close>

definition handleMouseMove :: "position \<Rightarrow> string \<Rightarrow> State \<Rightarrow> State" where
  "handleMouseMove pos errorMessage st =
     st\<lparr>hoveredError := Some errorMessage, tooltipPosition := Some pos\<rparr>"

definition handleMouseLeave :: "State \<Rightarrow> State" where
  "handleMouseLeave st = st\<lparr>hoveredError := None, tooltipPosition := None\<rparr>"

text \<open>The message a watched cell passes on pointer movement: \<open>record.errors?.field?.message || ""\<close>.\<close>

definition cell_message :: "field \<Rightarrow> Record \<Rightarrow> string" where
  "cell_message f r = or_empty (map_option message (finding f r))"

text \<open>
  The elements \<open>renderModal\<close> produces: the background \<open>div\<close>, which alone carries the id
  \<open>modal-background\<close> and the handler \<open>closeModal\<close>; inside it the dialog panel with its
  title, the list with one entry and one label for each finding; and the Close button, the
  explicit dismiss control, with a handler of its own. An element without an id attribute
  reports the empty string as its id.
\<close>

datatype content_node = Dialog | Title | ErrorList | ErrorEntry field | FieldLabel field

datatype modal_node = Background | Content content_node | CloseButton

fun node_id :: "modal_node \<Rightarrow> string" where
  "node_id Background = ''modal-background''"
| "node_id (Content c) = ''''"
| "node_id CloseButton = ''''"

definition closeModal :: "string \<Rightarrow> State \<Rightarrow> State" where
  "closeModal target_id st =
     (if target_id = ''modal-background'' then st\<lparr>modalData := None\<rparr> else st)"

text \<open>
  A click on an element of the detail view runs the handler of the element itself, if it
  has one, and then bubbles to the background, whose handler sees the clicked element as
  the event's target.
\<close>

definition click_modal :: "modal_node \<Rightarrow> State \<Rightarrow> State" where
  "click_modal t st =
     closeModal (node_id t)
       (case t of CloseButton \<Rightarrow> st\<lparr>modalData := None\<rparr> | Background \<Rightarrow> st | Content c \<Rightarrow> st)"

section \<open>Rendering\<close>

text \<open>
  The component returns early while loading, and early again when \<open>error\<close> is truthy (a
  non-empty string); otherwise it renders the page: one table row for each visible record,
  the tooltip when both \<open>hoveredError\<close> and \<open>tooltipPosition\<close> are truthy, placed ten pixels
  right of and below the pointer, and the detail view when \<open>modalData\<close> is set.
\<close>

record page =
  table_rows :: "Record list"
  tooltip :: "(string \<times> position) option"
  modal :: "Record option"

datatype view = LoadingView | ErrorView string | TableView page

definition tooltip_of :: "State \<Rightarrow> (string \<times> position) option" where
  "tooltip_of st =
     (case hoveredError st of
        None \<Rightarrow> None
      | Some m \<Rightarrow>
          (if m = '''' then None
           else (case tooltipPosition st of
                   None \<Rightarrow> None
                 | Some (x, y) \<Rightarrow> Some (m, (x + 10, y + 10)))))"

definition render_page :: "State \<Rightarrow> page" where
  "render_page st =
     \<lparr>table_rows = filteredRecords st, tooltip = tooltip_of st, modal = modalData st\<rparr>"

definition render :: "State \<Rightarrow> view" where
  "render st =
     (if loading st then LoadingView
      else (case error st of
              None \<Rightarrow> TableView (render_page st)
            | Some m \<Rightarrow> (if m = '''' then TableView (render_page st) else ErrorView m)))"

fun tooltip_shown :: "view \<Rightarrow> bool" where
  "tooltip_shown (TableView p) = (tooltip p \<noteq> None)"
| "tooltip_shown LoadingView = False"
| "tooltip_shown (ErrorView m) = False"

fun is_table :: "view \<Rightarrow> bool" where
  "is_table (TableView p) = True"
| "is_table LoadingView = False"
| "is_table (ErrorView m) = False"

section \<open>Events\<close>

text \<open>
  What can happen to the mounted component: the pending request settles; the user types
  in the search input, presses View Errors on a visible row, clicks an element of the open
  detail view, moves the pointer over a watched cell of a visible row or out of it, or
  presses Export CSV. The controls exist only while the page is rendered, the rows only for
  visible records, the detail view only while \<open>modalData\<close> is set, and the request settles
  only once, while the component is loading. \<open>run\<close> passes over an event that cannot occur
  in the current world.
\<close>

datatype event =
    Settle fetch_outcome
  | ChangeQuery string
  | ViewErrors Record
  | ClickModal modal_node
  | MouseMove field Record position
  | MouseLeave
  | ExportCSV

fun enabled :: "World \<Rightarrow> event \<Rightarrow> bool" where
  "enabled w (Settle out) = loading (state w)"
| "enabled w (ChangeQuery q) = is_table (render (state w))"
| "enabled w (ViewErrors r) =
     (is_table (render (state w)) \<and> r \<in> set (filteredRecords (state w)))"
| "enabled w (ClickModal t) = (is_table (render (state w)) \<and> modalData (state w) \<noteq> None)"
| "enabled w (MouseMove f r pos) =
     (is_table (render (state w)) \<and> r \<in> set (filteredRecords (state w)))"
| "enabled w MouseLeave = is_table (render (state w))"
| "enabled w ExportCSV = is_table (render (state w))"

fun fire :: "event \<Rightarrow> World \<Rightarrow> World" where
  "fire (Settle out) w = fetchData_settle out w"
| "fire (ChangeQuery q) w = w\<lparr>state := (state w)\<lparr>searchQuery := q\<rparr>\<rparr>"
| "fire (ViewErrors r) w = w\<lparr>state := (state w)\<lparr>modalData := Some r\<rparr>\<rparr>"
| "fire (ClickModal t) w = w\<lparr>state := click_modal t (state w)\<rparr>"
| "fire (MouseMove f r pos) w =
     w\<lparr>state := handleMouseMove pos (cell_message f r) (state w)\<rparr>"
| "fire MouseLeave w = w\<lparr>state := handleMouseLeave (state w)\<rparr>"
| "fire ExportCSV w = exportToCSV w"

fun run :: "event list \<Rightarrow> World \<Rightarrow> World" where
  "run [] w = w"
| "run (e # es) w = run es (if enabled w e then fire e w else w)"

section \<open>Hover operations and the hover invariant\<close>

text \<open>
  The two hover operations on their own, with any message and position, for sequences of
  them started from the initial state.
\<close>

datatype hover_op = HoverField string position | UnhoverField

fun apply_hover_op :: "hover_op \<Rightarrow> State \<Rightarrow> State" where
  "apply_hover_op (HoverField m pos) st = handleMouseMove pos m st"
| "apply_hover_op UnhoverField st = handleMouseLeave st"

fun apply_hover_ops :: "hover_op list \<Rightarrow> State \<Rightarrow> State" where
  "apply_hover_ops [] st = st"
| "apply_hover_ops (op # ops) st = apply_hover_ops ops (apply_hover_op op st)"

text \<open>
  What every world reached from the mounted component satisfies: the two hover cells are
  set together, and they are set only while the page is rendered.
\<close>

definition hover_inv :: "State \<Rightarrow> bool" where
  "hover_inv st \<longleftrightarrow>
     ((hoveredError st = None) = (tooltipPosition st = None))
     \<and> (hoveredError st = None \<or> is_table (render st))"

section \<open>Sample data\<close>

text \<open>
  Two records for concrete evaluation: \<open>ann\<close> has no optional field and one finding, on
  her email; \<open>bob\<close> has every optional field and no \<open>errors\<close> property.
\<close>

definition ann :: Record where
  "ann =
     \<lparr>rec_id = 1, name = ''Ann'', email = ''a@x.com'', street = None, city = None,
      zipcode = None, phone = None, status = ''active'',
      errors = Some \<lparr>err_email = Some \<lparr>message = ''bad format'', severity = critical\<rparr>,
                     err_phone = None, err_zipcode = None, err_street = None\<rparr>\<rparr>"

definition bob :: Record where
  "bob =
     \<lparr>rec_id = 2, name = ''Bob'', email = ''bob@y.org'', street = Some ''5 Elm St'',
      city = Some ''Troy'', zipcode = Some ''12180'', phone = Some ''555-0100'',
      status = ''pending'', errors = None\<rparr>"

definition loaded :: "string \<Rightarrow> State" where
  "loaded q =
     \<lparr>records = [ann, bob], loading = False, error = None, modalData = None,
      searchQuery = q, hoveredError = None, tooltipPosition = None\<rparr>"

text \<open>
  The world once the request has delivered the two records and the user has typed the
  query \<open>q\<close>.
\<close>

definition searching :: "string \<Rightarrow> World" where
  "searching q = run [Settle (Resolved [ann, bob]), ChangeQuery q] mounted"

section \<open>Theorems\<close>

lemma includes_iff_sublist: "includes_str s q \<longleftrightarrow> sublist q s"
proof (induction s)
  case Nil
  then show ?case by auto
next
  case (Cons c cs)
  then show ?case by (cases q) (simp_all add: sublist_Cons_right)
qed

lemma includes_empty: "includes_str s ''''"
  by (simp add: includes_iff_sublist)

lemma toLowerCase_Nil: "toLowerCase '''' = ''''"
  by (simp add: toLowerCase_def)


lemma matches_empty_query: "matches '''' r"
  by (simp add: matches_def Object_values_def toLowerCase_Nil includes_empty)






subsection \<open>Filter\<close>




text \<open>
  C4: with the empty query the visible records are the whole record set, in its order.
  Every record has at least the value of its \<open>id\<close>, and the empty string is contained in
  every text.
\<close>

theorem empty_query_keeps_all:
  "searchQuery st = '''' \<Longrightarrow> filteredRecords st = records st"
  by (simp add: filteredRecords_def matches_empty_query)

theorem empty_query_keeps_all_witness:
  "searchQuery (loaded '''') = '''' \<and> filteredRecords (loaded '''') = [ann, bob]"
proof -
  have q: "searchQuery (loaded '''') = ''''"
    by (simp add: loaded_def)
  show ?thesis
    using q empty_query_keeps_all [OF q] by (simp add: loaded_def)
qed

subsection \<open>Field severity\<close>

text \<open>
  C5: the severity resolver depends on the optional finding alone. A finding of severity
  critical gives the red classes, a finding of severity warning the yellow ones, and no
  finding the green ones, whatever the finding's message.
\<close>

theorem getFieldColor_tiers:
  "getFieldColor (severity_of (Some \<lparr>message = m, severity = critical\<rparr>))
     = ''bg-red-500/20 hover:bg-red-500/30 text-red-900''
   \<and> getFieldColor (severity_of (Some \<lparr>message = m, severity = warning\<rparr>))
     = ''bg-yellow-500/20 hover:bg-yellow-500/30 text-yellow-900''
   \<and> getFieldColor (severity_of None)
     = ''bg-green-500/20 hover:bg-green-500/30 text-green-900''"
  by (simp add: getFieldColor_def severity_of_def)

subsection \<open>Hover state\<close>

lemma is_table_render:
  "is_table (render st) \<longleftrightarrow> \<not> loading st \<and> (error st = None \<or> error st = Some '''')"
  by (simp add: render_def split: option.splits)

lemma state_exportToCSV: "state (exportToCSV w) = state w"
  by (simp add: exportToCSV_def Let_def)

lemma click_modal_frame:
  "hoveredError (click_modal t st) = hoveredError st"
  "tooltipPosition (click_modal t st) = tooltipPosition st"
  "loading (click_modal t st) = loading st"
  "error (click_modal t st) = error st"
  by (cases t; simp add: click_modal_def closeModal_def)+

lemma fire_hover_inv:
  assumes "hover_inv (state w)" and "enabled w e"
  shows "hover_inv (state (fire e w))"
proof (cases e)
  case (Settle out)
  with assms show ?thesis
    by (cases out) (auto simp: hover_inv_def is_table_render)
next
  case (ChangeQuery q)
  with assms show ?thesis by (simp add: hover_inv_def is_table_render)
next
  case (ViewErrors r)
  with assms show ?thesis by (simp add: hover_inv_def is_table_render)
next
  case (ClickModal t)
  with assms show ?thesis by (simp add: hover_inv_def is_table_render click_modal_frame)
next
  case (MouseMove f r pos)
  with assms show ?thesis by (simp add: hover_inv_def is_table_render handleMouseMove_def)
next
  case MouseLeave
  with assms show ?thesis by (simp add: hover_inv_def is_table_render handleMouseLeave_def)
next
  case ExportCSV
  with assms show ?thesis by (simp add: hover_inv_def is_table_render state_exportToCSV)
qed

lemma run_hover_inv: "hover_inv (state w) \<Longrightarrow> hover_inv (state (run evs w))"
proof (induction evs arbitrary: w)
  case Nil
  then show ?case by simp
next
  case (Cons e es)
  then show ?case by (simp add: fire_hover_inv)
qed

lemma mounted_hover_inv: "hover_inv (state mounted)"
  by (simp add: hover_inv_def mounted_def fetchData_start_def initial_state_def)

lemma apply_hover_op_paired:
  "(hoveredError (apply_hover_op op st) = None) = (tooltipPosition (apply_hover_op op st) = None)"
  by (cases op) (simp_all add: handleMouseMove_def handleMouseLeave_def)

lemma apply_hover_ops_paired:
  "(hoveredError st = None) = (tooltipPosition st = None) \<Longrightarrow>
   (hoveredError (apply_hover_ops ops st) = None) = (tooltipPosition (apply_hover_ops ops st) = None)"
  by (induction ops arbitrary: st) (simp_all add: apply_hover_op_paired)

text \<open>
  C6: after every sequence of hover and unhover operations from the initial state, and
  after every sequence of events of the mounted component, the hovered message is set
  exactly when the pointer position is set.
\<close>

theorem hover_state_paired:
  "(hoveredError (apply_hover_ops ops initial_state) = None)
     = (tooltipPosition (apply_hover_ops ops initial_state) = None)
   \<and> (hoveredError (state (run evs mounted)) = None)
     = (tooltipPosition (state (run evs mounted)) = None)"
proof
  show "(hoveredError (apply_hover_ops ops initial_state) = None)
     = (tooltipPosition (apply_hover_ops ops initial_state) = None)"
    by (rule apply_hover_ops_paired) (simp add: initial_state_def)
  show "(hoveredError (state (run evs mounted)) = None)
     = (tooltipPosition (state (run evs mounted)) = None)"
    using run_hover_inv [OF mounted_hover_inv, of evs] by (simp add: hover_inv_def)
qed

subsection \<open>Detail view\<close>

text \<open>
  C7: while a record's detail view is open, a click on the background itself clears
  \<open>modalData\<close>, and a click on the content inside it (the panel, the title, the list, an
  entry, a label) leaves the record in place. The Close button is the explicit dismiss
  control, apart from the content: a click on it clears \<open>modalData\<close> through the
  button's own handler, and the background's handler, reached by bubbling, adds nothing.
\<close>

theorem scrim_click_closes:
  "modalData st = Some r \<Longrightarrow>
     modalData (click_modal Background st) = None
     \<and> modalData (click_modal (Content c) st) = Some r
     \<and> modalData (click_modal CloseButton st) = None"
  by (simp add: click_modal_def closeModal_def)

theorem scrim_click_closes_witness:
  "modalData ((loaded '''')\<lparr>modalData := Some ann\<rparr>) = Some ann
   \<and> modalData (click_modal Background ((loaded '''')\<lparr>modalData := Some ann\<rparr>)) = None
   \<and> modalData (click_modal (Content Title) ((loaded '''')\<lparr>modalData := Some ann\<rparr>)) = Some ann"
proof -
  have h: "modalData ((loaded '''')\<lparr>modalData := Some ann\<rparr>) = Some ann"
    by simp
  show ?thesis
    using h scrim_click_closes [OF h, of Title] by simp
qed

subsection \<open>Export leaves the state alone\<close>

text \<open>
  C8: pressing Export CSV leaves the component state as it was: the records, the loading
  flag, the error, the query, the open record and both hover cells. The console and the
  count of requests are left alone too.
\<close>

theorem export_leaves_state:
  "state (fire ExportCSV w) = state w
   \<and> console (fire ExportCSV w) = console w
   \<and> requests (fire ExportCSV w) = requests w"
  by (simp add: exportToCSV_def Let_def)

subsection \<open>Fetch failure\<close>

lemma requests_fire: "requests (fire e w) = requests w"
proof (cases e)
  case (Settle out)
  then show ?thesis by (cases out) simp_all
qed (simp_all add: exportToCSV_def Let_def)

lemma requests_run: "requests (run evs w) = requests w"
  by (induction evs arbitrary: w) (simp_all add: requests_fire)

lemma failed_nothing_enabled:
  "\<not> loading (state w) \<Longrightarrow> error (state w) = Some m \<Longrightarrow> m \<noteq> '''' \<Longrightarrow> \<not> enabled w e"
  by (cases e) (simp_all add: is_table_render)

lemma failed_run_idle:
  "\<not> loading (state w) \<Longrightarrow> error (state w) = Some m \<Longrightarrow> m \<noteq> '''' \<Longrightarrow> run evs w = w"
  by (induction evs) (simp_all add: failed_nothing_enabled)

lemma fetch_error_message_nonempty: "fetch_error_message \<noteq> ''''"
  by (simp add: fetch_error_message_def)

text \<open>
  C9: whatever the failure, the component stores the one fixed message, and the state it
  reaches does not depend on the failure, which goes to the console only. From then on
  the component renders the message and nothing else, whatever events follow, and it
  issues no further request: the mounted component issues one request in all.
\<close>

theorem fetch_failure_uniform:
  "error (state (fetchData_settle (Rejected err) w))
     = Some ''Error fetching data. Please try again later.''
   \<and> state (fetchData_settle (Rejected err) w) = state (fetchData_settle (Rejected err') w)
   \<and> console (fetchData_settle (Rejected err) w) = console w @ [err]
   \<and> render (state (run evs (fetchData_settle (Rejected err) w)))
     = ErrorView ''Error fetching data. Please try again later.''
   \<and> requests (run evs (fetchData_settle (Rejected err) w)) = requests w
   \<and> requests (run evs mounted) = 1"
proof -
  let ?w = "fetchData_settle (Rejected err) w"
  have idle: "run evs ?w = ?w"
    by (rule failed_run_idle [where m = fetch_error_message])
       (simp_all add: fetch_error_message_nonempty)
  have one: "requests (run evs mounted) = 1"
    by (simp add: requests_run mounted_def fetchData_start_def)
  show ?thesis
    unfolding idle using one by (simp add: fetch_error_message_def render_def)
qed

subsection \<open>Sample worlds\<close>

lemma state_searching: "state (searching q) = loaded q"
  by (simp add: searching_def mounted_def fetchData_start_def initial_state_def
        is_table_render loaded_def)

lemma downloads_searching: "downloads (searching q) = []"
  by (simp add: searching_def mounted_def fetchData_start_def initial_state_def
        is_table_render)

lemma enabled_searching_hover: "enabled (searching '''') (MouseMove Phone ann (3, 4))"
  by (simp add: state_searching is_table_render filteredRecords_def)
     (simp add: loaded_def matches_empty_query)

lemma ann_only: "filteredRecords (loaded ''a@x'') = [ann]"
  by (simp add: filteredRecords_def loaded_def matches_def Object_values_def ann_def bob_def
        toLowerCase_def lower_char_def present_def)

lemma none_visible: "filteredRecords (loaded ''zzz'') = []"
  by (simp add: filteredRecords_def loaded_def matches_def Object_values_def ann_def bob_def
        toLowerCase_def lower_char_def present_def)

subsection \<open>Tooltip\<close>

lemma tooltip_shown_render:
  "tooltip_shown (render st) \<longleftrightarrow> is_table (render st) \<and> tooltip_of st \<noteq> None"
  by (simp add: render_def render_page_def split: option.splits)

lemma tooltip_of_Some:
  "tooltip_of st \<noteq> None \<longleftrightarrow>
     (\<exists>m. hoveredError st = Some m \<and> m \<noteq> '''') \<and> tooltipPosition st \<noteq> None"
  by (auto simp: tooltip_of_def split: option.splits)

lemma tooltip_shown_iff:
  "hover_inv st \<Longrightarrow>
     tooltip_shown (render st) \<longleftrightarrow> (\<exists>m. hoveredError st = Some m \<and> m \<noteq> '''')"
  unfolding tooltip_shown_render tooltip_of_Some hover_inv_def by auto

lemma cell_message_no_finding: "finding f r = None \<Longrightarrow> cell_message f r = ''''"
  by (simp add: cell_message_def or_empty_def)

text \<open>
  C10: moving the pointer over a watched cell always runs the hover operation with the
  cell's message. When the field has no finding, the message stored is the empty string,
  the position is stored all the same, and no tooltip is rendered. In every world reached
  from the mounted component the tooltip is rendered exactly when the stored message is
  a non-empty string.
\<close>

theorem hover_without_finding:
  "state (fire (MouseMove f r pos) w) = handleMouseMove pos (cell_message f r) (state w)
   \<and> (finding f r = None \<longrightarrow>
        hoveredError (state (fire (MouseMove f r pos) w)) = Some ''''
        \<and> tooltipPosition (state (fire (MouseMove f r pos) w)) = Some pos
        \<and> \<not> tooltip_shown (render (state (fire (MouseMove f r pos) w))))
   \<and> (tooltip_shown (render (state (run evs mounted)))
        \<longleftrightarrow> (\<exists>m. hoveredError (state (run evs mounted)) = Some m \<and> m \<noteq> ''''))"
proof (intro conjI impI)
  show "state (fire (MouseMove f r pos) w) = handleMouseMove pos (cell_message f r) (state w)"
    by simp
next
  assume "finding f r = None"
  then show "hoveredError (state (fire (MouseMove f r pos) w)) = Some ''''"
    by (simp add: handleMouseMove_def cell_message_no_finding)
next
  show "tooltipPosition (state (fire (MouseMove f r pos) w)) = Some pos"
    by (simp add: handleMouseMove_def)
next
  assume "finding f r = None"
  then show "\<not> tooltip_shown (render (state (fire (MouseMove f r pos) w)))"
    by (simp add: tooltip_shown_render tooltip_of_def handleMouseMove_def
          cell_message_no_finding)
next
  show "tooltip_shown (render (state (run evs mounted)))
        \<longleftrightarrow> (\<exists>m. hoveredError (state (run evs mounted)) = Some m \<and> m \<noteq> '''')"
    by (rule tooltip_shown_iff) (rule run_hover_inv [OF mounted_hover_inv])
qed

theorem hover_without_finding_witness:
  "finding Phone ann = None
   \<and> enabled (searching '''') (MouseMove Phone ann (3, 4))
   \<and> hoveredError (state (fire (MouseMove Phone ann (3, 4)) (searching ''''))) = Some ''''
   \<and> tooltipPosition (state (fire (MouseMove Phone ann (3, 4)) (searching ''''))) = Some (3, 4)
   \<and> \<not> tooltip_shown (render (state (fire (MouseMove Phone ann (3, 4)) (searching ''''))))"
proof -
  have "finding Phone ann = None"
    by (simp add: ann_def)
  then show ?thesis
    using hover_without_finding [of Phone ann "(3, 4)" "searching ''''" "[]"]
      enabled_searching_hover
    by blast
qed

subsection \<open>Export rows\<close>



lemma flattenRecord_columns: "map fst (flattenRecord r) = columns"
  by (simp add: flattenRecord_def columns_def)




lemma downloads_exportToCSV:
  "downloads (exportToCSV w) =
     downloads w
     @ [\<lparr>filename = ''data_export_with_errors.csv'', mime = ''text/csv;charset=utf-8;'',
         content = unparse (flattenedData (state w))\<rparr>]"
  by (simp add: exportToCSV_def Let_def export_document_def)



text \<open>
  The serialized text for a non-empty visible sequence begins with the header line, the
  sixteen column names separated by commas; for the query \<open>a@x\<close> it is the header and the
  one line of \<open>ann\<close>.
\<close>

lemma header_text:
  "join '','' (map (\<lambda>f. safe (Some (JString f))) columns) =
   ''id,name,email,street,city,zipcode,phone,status,email_error,email_severity,phone_error,phone_severity,zipcode_error,zipcode_severity,street_error,street_severity''"
  by (simp add: columns_def safe_def escape_quotes_def needs_quotes_def)

lemma columns_nonempty: "columns \<noteq> []"
  by (simp add: columns_def)

lemma unparse_Cons:
  "unparse (flattenRecord r # rows) =
     join '','' (map (\<lambda>f. safe (Some (JString f))) columns) @ newline
     @ join newline
         (map (\<lambda>r. join (if r = [] then [] else '','') (map (\<lambda>f. safe (map_of r f)) columns))
            (flattenRecord r # rows))"
  unfolding unparse_def serialize_def list.case flattenRecord_columns
  using columns_nonempty by (simp only: if_False list.distinct append_assoc)

lemma export_document_ann:
  "export_document (loaded ''a@x'') =
     ''id,name,email,street,city,zipcode,phone,status,email_error,email_severity,phone_error,phone_severity,zipcode_error,zipcode_severity,street_error,street_severity''
     @ newline @ ''1,Ann,a@x.com,,,,,active,bad format,critical,,,,,,''"
  unfolding export_document_def flattenedData_def ann_only list.map unparse_Cons header_text
  by (simp add: columns_def flattenRecord_def ann_def or_empty_def safe_def escape_quotes_def
        needs_quotes_def)

subsection \<open>Export of an empty visible sequence\<close>

lemma unparse_Nil: "unparse [] = ''''"
  by (simp add: unparse_def serialize_def)

text \<open>
  C3, as stated: with no visible record the exported document is one line, the header
  with the sixteen column names. This fails: \<open>exportToCSV\<close> passes the serializer the rows
  and nothing else, the serializer takes the column names from the first row, and with
  no row it writes nothing. With the query \<open>zzz\<close> no record is visible and the document
  is the empty text.
\<close>

theorem export_empty_header_counterexample:
  "filteredRecords (loaded ''zzz'') = []
   \<and> export_document (loaded ''zzz'') = ''''
   \<and> export_document (loaded ''zzz'') \<noteq> join '','' columns"
  by (simp add: none_visible export_document_def flattenedData_def unparse_Nil columns_def)

text \<open>
  C3, amended: with no visible record, pressing Export CSV still starts a download under
  the fixed file name, and nothing fails; the document is the empty text, without a
  header row.
\<close>

theorem export_empty_visible:
  "filteredRecords (state w) = [] \<Longrightarrow>
     downloads (fire ExportCSV w) =
       downloads w
       @ [\<lparr>filename = ''data_export_with_errors.csv'', mime = ''text/csv;charset=utf-8;'',
           content = ''''\<rparr>]"
  by (simp add: downloads_exportToCSV flattenedData_def unparse_Nil)

theorem export_empty_visible_witness:
  "filteredRecords (state (searching ''zzz'')) = []
   \<and> downloads (fire ExportCSV (searching ''zzz'')) =
       [\<lparr>filename = ''data_export_with_errors.csv'', mime = ''text/csv;charset=utf-8;'',
         content = ''''\<rparr>]"
proof -
  have e: "filteredRecords (state (searching ''zzz'')) = []"
    by (simp only: state_searching none_visible)
  show ?thesis
    using e export_empty_visible [OF e] by (simp only: downloads_searching append_Nil simp_thms)
qed

end
